theory Spec2Isabelle
  imports Main
begin

section \<open>The component state of \<open>src/app/page.tsx\<close>\<close>

text \<open>
  \<open>interface Feature { symbol: string; name: string }\<close> (lines 12 to 15).
\<close>

record feature =
  symbol :: string
  name :: string

text \<open>
  The catalogue of lines 4 to 10, one constant per entry. The source sorts the array by
  \<open>name.localeCompare\<close>; the five names start with the distinct capitals A, G, I, P
  and T, so the sorted array is the one written as \<open>FEATURES\<close>. Only membership in
  the catalogue is used below.
\<close>

definition InvoiceGen :: feature where
  "InvoiceGen = \<lparr>symbol = ''InvoiceGen'', name = ''Generate Professional Invoices''\<rparr>"

definition TrackPayments :: feature where
  "TrackPayments = \<lparr>symbol = ''TrackPayments'', name = ''Track Payment Status''\<rparr>"

definition AutoReminders :: feature where
  "AutoReminders = \<lparr>symbol = ''AutoReminders'', name = ''Automated Payment Reminders''\<rparr>"

definition Dashboard :: feature where
  "Dashboard = \<lparr>symbol = ''Dashboard'', name = ''Income & Overdue Summary''\<rparr>"

definition Integrations :: feature where
  "Integrations = \<lparr>symbol = ''Integrations'', name = ''Payment Platform Integrations''\<rparr>"

definition FEATURES :: "feature list" where
  "FEATURES = [AutoReminders, InvoiceGen, Dashboard, Integrations, TrackPayments]"

text \<open>The union type \<open>'input' | 'loading' | 'report'\<close> of line 22.\<close>

datatype stage = Input | Loading | Report

text \<open>
  What \<open>Response.json()\<close> can resolve to. TypeScript gives it the type \<open>any\<close>; the
  component never looks inside, so the carrier of numbers is left as a type parameter.
\<close>

datatype 'n json =
    JNull
  | JBool bool
  | JNumber 'n
  | JString string
  | JArray "'n json list"
  | JObject "(string \<times> 'n json) list"

text \<open>
  The five \<open>useState\<close> cells of lines 18 to 22. \<open>error\<close> has type \<open>string | null\<close>:
  \<open>None\<close> is \<open>null\<close>. \<open>report\<close> is declared a string, but \<open>setReport\<close> is handed
  the decoded response unchecked (line 68), so the cell holds any JSON value.
\<close>

record 'n state =
  selectedFeatures :: "feature list"
  error :: "string option"
  isLoading :: bool
  report :: "'n json"
  stage :: stage

definition initialState :: "'n state" where
  "initialState =
    \<lparr>selectedFeatures = [], error = None, isLoading = False,
     report = JString [], stage = Input\<rparr>"

text \<open>
  The banner of lines 133 to 137 is rendered when \<open>error\<close> is truthy: neither \<open>null\<close>
  nor the empty string.
\<close>

definition errorShown :: "'n state \<Rightarrow> bool" where
  "errorShown s = (case error s of None \<Rightarrow> False | Some m \<Rightarrow> m \<noteq> [])"

section \<open>Selection handlers\<close>

text \<open>
  \<open>selectedFeatures.some(f => f.symbol === feature.symbol)\<close>, used at lines 29, 97
  and 99.
\<close>

definition isSelected :: "feature \<Rightarrow> feature list \<Rightarrow> bool" where
  "isSelected feature fs = list_ex (\<lambda>f. symbol f = symbol feature) fs"

text \<open>\<open>handleFeatureSelect\<close>, lines 24 to 35.\<close>

definition handleFeatureSelect :: "feature \<Rightarrow> 'n state \<Rightarrow> 'n state" where
  "handleFeatureSelect feature s =
    (if length (selectedFeatures s) \<ge> 3 then
       s\<lparr>error := Some ''Maximum 3 features allowed''\<rparr>
     else if isSelected feature (selectedFeatures s) then
       s\<lparr>error := Some ''Feature already selected''\<rparr>
     else
       s\<lparr>selectedFeatures := selectedFeatures s @ [feature], error := Some []\<rparr>)"

text \<open>\<open>handleRemoveFeature\<close>, lines 37 to 40.\<close>

definition handleRemoveFeature :: "string \<Rightarrow> 'n state \<Rightarrow> 'n state" where
  "handleRemoveFeature smb s =
    s\<lparr>selectedFeatures := filter (\<lambda>f. symbol f \<noteq> smb) (selectedFeatures s),
      error := Some []\<rparr>"

text \<open>A call of one of the two selection handlers, and a sequence of such calls.\<close>

datatype selection_op = Select feature | Remove string

fun apply_op :: "selection_op \<Rightarrow> 'n state \<Rightarrow> 'n state" where
  "apply_op (Select f) s = handleFeatureSelect f s"
| "apply_op (Remove smb) s = handleRemoveFeature smb s"

fun apply_ops :: "selection_op list \<Rightarrow> 'n state \<Rightarrow> 'n state" where
  "apply_ops [] s = s"
| "apply_ops (x # xs) s = apply_ops xs (apply_op x s)"

text \<open>The invariant the specification gives for the selection.\<close>

definition selection_ok :: "'n state \<Rightarrow> bool" where
  "selection_ok s =
    (length (selectedFeatures s) \<le> 3 \<and> distinct (map symbol (selectedFeatures s)))"

section \<open>Report generation\<close>

text \<open>\<open>Array.prototype.join\<close> on an array of strings.\<close>

fun join :: "string \<Rightarrow> string list \<Rightarrow> string" where
  "join sep [] = []"
| "join sep [x] = x"
| "join sep (x # y # ys) = x @ sep @ join sep (y # ys)"

text \<open>Line 52.\<close>

definition featuresList :: "feature list \<Rightarrow> string" where
  "featuresList fs = join '', '' (map (\<lambda>f. name f @ '' ('' @ symbol f @ '')'') fs)"

text \<open>The template literal of line 53; \<open>CHR 0x0A\<close> is its \<open>\n\<close>.\<close>

definition prompt :: "feature list \<Rightarrow> string" where
  "prompt fs =
    ''You are a SaaS strategist. Analyze the following features for a Freelancer Invoice Tracker: ''
    @ featuresList fs @ ''.'' @ [CHR 0x0A, CHR 0x0A]
    @ ''Provide a comprehensive report including:'' @ [CHR 0x0A]
    @ ''1. Benefits of these features with practical use cases.'' @ [CHR 0x0A]
    @ ''2. Actionable strategies for implementation and user engagement.'' @ [CHR 0x0A]
    @ ''3. Challenges freelancers face and how these features resolve them.'' @ [CHR 0x0A]
    @ ''4. Suggestions for scaling the tool effectively.''"

text \<open>
  What the environment answers to the \<open>fetch\<close> of line 55. The promise is rejected (a
  network error) or resolves to a response, of which the handler reads \<open>ok\<close> and the
  promise of \<open>json()\<close>: \<open>body = None\<close> when that promise is rejected, the body being no
  well-formed JSON. \<open>ok\<close> is the Fetch standard's: the status lies in 200 to 299.
\<close>

record 'n response =
  status :: nat
  body :: "'n json option"

definition ok :: "'n response \<Rightarrow> bool" where
  "ok resp = (200 \<le> status resp \<and> status resp \<le> 299)"

datatype 'n fetch_result = Rejected | Resolved "'n response"

text \<open>
  \<open>handleGenerateReport\<close>, lines 42 to 76, is asynchronous and suspends once, at the
  \<open>await fetch\<close>. Its first part runs to that point, lines 42 to 61: it returns the new
  state and the prompt of the request it issued, if any (the request is a POST of
  \<open>JSON.stringify(prompt)\<close> to the fixed address).
\<close>

definition handleGenerateReport_issue :: "'n state \<Rightarrow> 'n state \<times> string option" where
  "handleGenerateReport_issue s =
    (if length (selectedFeatures s) = 0 then
       (s\<lparr>error := Some ''Please select at least one feature''\<rparr>, None)
     else
       (s\<lparr>stage := Loading, isLoading := True\<rparr>, Some (prompt (selectedFeatures s))))"

text \<open>
  Its second part, lines 63 to 75, runs when the request settles, on the state the
  component has by then: after the \<open>await\<close> the handler only calls setters.
\<close>

definition handleGenerateReport_settle :: "'n fetch_result \<Rightarrow> 'n state \<Rightarrow> 'n state" where
  "handleGenerateReport_settle r s =
    (let failed = s\<lparr>error := Some ''Failed to generate report. Please try again.'',
                    stage := Input, isLoading := False\<rparr>
     in case r of
          Rejected \<Rightarrow> failed
        | Resolved resp \<Rightarrow>
            (if \<not> ok resp then failed
             else (case body resp of
                     None \<Rightarrow> failed
                   | Some reportData \<Rightarrow>
                       s\<lparr>report := reportData, stage := Report, isLoading := False\<rparr>)))"

text \<open>
  One whole call with no other event in between, given the answer of the environment: the
  final state and the prompts of the requests the call issued.
\<close>

definition handleGenerateReport :: "'n fetch_result \<Rightarrow> 'n state \<Rightarrow> 'n state \<times> string list" where
  "handleGenerateReport r s =
    (case handleGenerateReport_issue s of
       (s1, None) \<Rightarrow> (s1, [])
     | (s1, Some p) \<Rightarrow> (handleGenerateReport_settle r s1, [p]))"

text \<open>The \<open>onClick\<close> of the button of lines 162 to 167: \<open>() => setStage('input')\<close>.\<close>

definition tryAnotherSelection :: "'n state \<Rightarrow> 'n state" where
  "tryAnotherSelection s = s\<lparr>stage := Input\<rparr>"

section \<open>The rendered page as a transition system\<close>

text \<open>
  The component state together with the requests in flight (their prompts, oldest first).
\<close>

record 'n world =
  component :: "'n state"
  pending :: "string list"

definition initialWorld :: "'n world" where
  "initialWorld = \<lparr>component = initialState, pending = []\<rparr>"

definition inflight :: "'n world \<Rightarrow> nat" where
  "inflight w = length (pending w)"

text \<open>
  What React does with a value placed as a child, as \<open>{report}\<close> is at line 161: a string
  or a number becomes text, \<open>null\<close> and the booleans become nothing, an array is rendered
  element by element, and a plain object makes the render throw.
\<close>

fun renderable :: "'n json \<Rightarrow> bool" where
  "renderable JNull = True"
| "renderable (JBool b) = True"
| "renderable (JNumber n) = True"
| "renderable (JString str) = True"
| "renderable (JArray xs) = list_all renderable xs"
| "renderable (JObject kvs) = False"

text \<open>
  Whether the JSX of lines 78 to 173 renders in a state. The report is a child only in
  stage \<open>report\<close> (line 158); everything else that is rendered is a string. When the
  render throws, nothing catches it in the component: the page is unmounted, it has no
  button any more, and the setters of a request that settles later have no effect.
\<close>

definition renders :: "'n state \<Rightarrow> bool" where
  "renders s = (if stage s = Report then renderable (report s) else True)"

text \<open>
  The events of the page: a click on one of the four kinds of button the JSX renders, or
  the settling of the \<open>k\<close>-th request in flight.
\<close>

datatype 'n event =
    ClickTile feature
  | ClickRemove string
  | ClickGenerate
  | ClickTryAnother
  | Settle nat "'n fetch_result"

text \<open>
  When an event can happen. A button exists only while the page renders. A tile is
  rendered for each catalogue entry in stage \<open>input\<close> only and is disabled once its
  symbol is selected (lines 91 to 97); there is a remove button for each selected feature,
  in every stage (lines 111 to 126); the generate button is rendered in every stage and is
  disabled exactly when the selection is empty (lines 139 to 141); the reset button is
  rendered in stage \<open>report\<close>, below the report (lines 158 to 163).
\<close>

fun enabled :: "'n event \<Rightarrow> 'n world \<Rightarrow> bool" where
  "enabled (ClickTile f) w =
     (renders (component w) \<and> stage (component w) = Input \<and> f \<in> set FEATURES
      \<and> \<not> isSelected f (selectedFeatures (component w)))"
| "enabled (ClickRemove smb) w =
     (renders (component w) \<and> smb \<in> set (map symbol (selectedFeatures (component w))))"
| "enabled ClickGenerate w =
     (renders (component w) \<and> \<not> (length (selectedFeatures (component w)) = 0))"
| "enabled ClickTryAnother w = (renders (component w) \<and> stage (component w) = Report)"
| "enabled (Settle k r) w = (k < length (pending w))"

fun handle :: "'n event \<Rightarrow> 'n world \<Rightarrow> 'n world" where
  "handle (ClickTile f) w = w\<lparr>component := handleFeatureSelect f (component w)\<rparr>"
| "handle (ClickRemove smb) w = w\<lparr>component := handleRemoveFeature smb (component w)\<rparr>"
| "handle ClickGenerate w =
     (case handleGenerateReport_issue (component w) of
        (s1, None) \<Rightarrow> w\<lparr>component := s1\<rparr>
      | (s1, Some p) \<Rightarrow> w\<lparr>component := s1, pending := pending w @ [p]\<rparr>)"
| "handle ClickTryAnother w = w\<lparr>component := tryAnotherSelection (component w)\<rparr>"
| "handle (Settle k r) w =
     w\<lparr>component :=
         (if renders (component w) then handleGenerateReport_settle r (component w)
          else component w),
       pending := take k (pending w) @ drop (Suc k) (pending w)\<rparr>"

definition fire :: "'n event \<Rightarrow> 'n world \<Rightarrow> 'n world option" where
  "fire e w = (if enabled e w then Some (handle e w) else None)"

fun run :: "'n event list \<Rightarrow> 'n world \<Rightarrow> 'n world option" where
  "run [] w = Some w"
| "run (e # es) w = (case fire e w of None \<Rightarrow> None | Some w' \<Rightarrow> run es w')"

text \<open>
  A run in which the generate button is never clicked while the stage is \<open>loading\<close>.
\<close>

fun isGenerate :: "'n event \<Rightarrow> bool" where
  "isGenerate ClickGenerate = True"
| "isGenerate _ = False"

fun generateNotWhileLoading :: "'n event list \<Rightarrow> 'n world \<Rightarrow> bool" where
  "generateNotWhileLoading [] w = True"
| "generateNotWhileLoading (e # es) w =
     ((if isGenerate e then stage (component w) \<noteq> Loading else True)
      \<and> (case fire e w of None \<Rightarrow> True | Some w' \<Rightarrow> generateNotWhileLoading es w'))"

text \<open>
  The relation between the stage and the requests in flight that holds as long as the
  generate button is not clicked while the stage is \<open>loading\<close>.
\<close>

definition one_request :: "'n world \<Rightarrow> bool" where
  "one_request w =
    ((stage (component w) = Loading \<longrightarrow> inflight w = 1)
     \<and> (stage (component w) \<noteq> Loading \<longrightarrow> inflight w = 0))"

section \<open>Properties of the selection handlers\<close>

lemmas catalogue_defs =
  FEATURES_def InvoiceGen_def TrackPayments_def AutoReminders_def Dashboard_def
  Integrations_def

lemma isSelected_iff: "isSelected f fs \<longleftrightarrow> symbol f \<in> symbol ` set fs"
  unfolding isSelected_def list_ex_iff by (metis image_iff)

lemma selection_ok_select: "selection_ok s \<Longrightarrow> selection_ok (handleFeatureSelect f s)"
  by (auto simp: selection_ok_def handleFeatureSelect_def isSelected_iff)

lemma selection_ok_remove: "selection_ok s \<Longrightarrow> selection_ok (handleRemoveFeature smb s)"
proof -
  assume ok: "selection_ok s"
  let ?fs = "selectedFeatures s"
  have "length (filter (\<lambda>f. symbol f \<noteq> smb) ?fs) \<le> length ?fs"
    by (rule length_filter_le)
  also have "\<dots> \<le> 3"
    using ok by (simp add: selection_ok_def)
  finally have len: "length (filter (\<lambda>f. symbol f \<noteq> smb) ?fs) \<le> 3" .
  have "distinct (map symbol (filter (\<lambda>f. symbol f \<noteq> smb) ?fs))"
    using ok by (simp add: selection_ok_def distinct_map_filter)
  with len show ?thesis
    unfolding selection_ok_def handleRemoveFeature_def by simp
qed

lemma selection_ok_apply_op: "selection_ok s \<Longrightarrow> selection_ok (apply_op x s)"
  by (cases x) (simp_all add: selection_ok_select selection_ok_remove)

lemma selection_ok_apply_ops: "selection_ok s \<Longrightarrow> selection_ok (apply_ops xs s)"
  by (induction xs arbitrary: s) (simp_all add: selection_ok_apply_op)

lemma selection_ok_initialState: "selection_ok initialState"
  by (simp add: selection_ok_def initialState_def)

text \<open>
  Claim C1. Whatever sequence of select and remove calls is run from the empty selection,
  the selection then holds at most three entries and no two of them carry the same symbol.
\<close>

theorem C1_selection_bounded_distinct:
  "length (selectedFeatures (apply_ops xs (initialState :: 'n state))) \<le> 3
   \<and> distinct (map symbol (selectedFeatures (apply_ops xs (initialState :: 'n state))))"
proof -
  have "selection_ok (apply_ops xs (initialState :: 'n state))"
    by (rule selection_ok_apply_ops) (rule selection_ok_initialState)
  then show ?thesis
    by (simp add: selection_ok_def)
qed

text \<open>
  Claim C2. \<open>select(feature)\<close> on any state: with three entries (or more) selected the
  selection stays as it is and the message is the one about the maximum; otherwise, with
  the symbol already selected, the selection stays as it is and the message is the one
  about the duplicate; otherwise the feature goes to the end of the selection and the
  message becomes the empty string. Nothing else of the state changes.
\<close>

theorem C2_select_outcomes:
  "selectedFeatures (handleFeatureSelect f s) =
     (if 3 \<le> length (selectedFeatures s) \<or> symbol f \<in> symbol ` set (selectedFeatures s)
      then selectedFeatures s else selectedFeatures s @ [f])
   \<and> error (handleFeatureSelect f s) =
     Some (if 3 \<le> length (selectedFeatures s) then ''Maximum 3 features allowed''
           else if symbol f \<in> symbol ` set (selectedFeatures s) then ''Feature already selected''
           else [])
   \<and> stage (handleFeatureSelect f s) = stage s
   \<and> report (handleFeatureSelect f s) = report s
   \<and> isLoading (handleFeatureSelect f s) = isLoading s"
  by (simp add: handleFeatureSelect_def isSelected_iff)

theorem C2_select_outcomes_witness:
  "handleFeatureSelect Dashboard
     (\<lparr>selectedFeatures = [InvoiceGen, TrackPayments, AutoReminders], error = None,
       isLoading = False, report = JString [], stage = Input\<rparr> :: unit state)
   = \<lparr>selectedFeatures = [InvoiceGen, TrackPayments, AutoReminders],
       error = Some ''Maximum 3 features allowed'',
       isLoading = False, report = JString [], stage = Input\<rparr>
   \<and> handleFeatureSelect InvoiceGen
     (\<lparr>selectedFeatures = [InvoiceGen], error = None,
       isLoading = False, report = JString [], stage = Input\<rparr> :: unit state)
   = \<lparr>selectedFeatures = [InvoiceGen],
       error = Some ''Feature already selected'',
       isLoading = False, report = JString [], stage = Input\<rparr>
   \<and> handleFeatureSelect Dashboard
     (\<lparr>selectedFeatures = [InvoiceGen], error = Some ''Feature already selected'',
       isLoading = False, report = JString [], stage = Input\<rparr> :: unit state)
   = \<lparr>selectedFeatures = [InvoiceGen, Dashboard],
       error = Some [],
       isLoading = False, report = JString [], stage = Input\<rparr>"
  using
    C2_select_outcomes [of Dashboard
      "\<lparr>selectedFeatures = [InvoiceGen, TrackPayments, AutoReminders], error = None,
        isLoading = False, report = JString [], stage = Input\<rparr> :: unit state"]
    C2_select_outcomes [of InvoiceGen
      "\<lparr>selectedFeatures = [InvoiceGen], error = None,
        isLoading = False, report = JString [], stage = Input\<rparr> :: unit state"]
    C2_select_outcomes [of Dashboard
      "\<lparr>selectedFeatures = [InvoiceGen], error = Some ''Feature already selected'',
        isLoading = False, report = JString [], stage = Input\<rparr> :: unit state"]
  by (simp add: catalogue_defs handleFeatureSelect_def isSelected_def)

text \<open>
  Claim C10. With three entries selected, selecting a feature whose symbol is among them
  reports the maximum, not the duplicate: the length check comes first.
\<close>

theorem C10_limit_before_duplicate:
  assumes "length (selectedFeatures s) = 3"
    and "symbol f \<in> symbol ` set (selectedFeatures s)"
  shows "error (handleFeatureSelect f s) = Some ''Maximum 3 features allowed''
         \<and> error (handleFeatureSelect f s) \<noteq> Some ''Feature already selected''
         \<and> selectedFeatures (handleFeatureSelect f s) = selectedFeatures s"
  using assms by (simp add: handleFeatureSelect_def)

theorem C10_limit_before_duplicate_witness:
  "length [InvoiceGen, TrackPayments, AutoReminders] = 3
   \<and> symbol TrackPayments \<in> symbol ` set [InvoiceGen, TrackPayments, AutoReminders]
   \<and> error (handleFeatureSelect TrackPayments
        (\<lparr>selectedFeatures = [InvoiceGen, TrackPayments, AutoReminders], error = None,
          isLoading = False, report = JString [], stage = Input\<rparr> :: unit state))
       = Some ''Maximum 3 features allowed''"
  using C10_limit_before_duplicate [of
      "\<lparr>selectedFeatures = [InvoiceGen, TrackPayments, AutoReminders], error = None,
        isLoading = False, report = JString [], stage = Input\<rparr> :: unit state"
      TrackPayments]
  by (simp add: catalogue_defs)

subsection \<open>Removing and selecting again\<close>

lemma not_isSelected_after_remove:
  "\<not> isSelected f (filter (\<lambda>g. symbol g \<noteq> symbol f) fs)"
  by (simp add: isSelected_def list_ex_iff)

text \<open>What \<open>remove\<close> followed by \<open>select\<close> of the same symbol does on any state.\<close>

lemma remove_then_select:
  "handleFeatureSelect f (handleRemoveFeature (symbol f) s) =
    (if length (filter (\<lambda>g. symbol g \<noteq> symbol f) (selectedFeatures s)) < 3 then
       s\<lparr>selectedFeatures := filter (\<lambda>g. symbol g \<noteq> symbol f) (selectedFeatures s) @ [f],
         error := Some []\<rparr>
     else
       s\<lparr>selectedFeatures := filter (\<lambda>g. symbol g \<noteq> symbol f) (selectedFeatures s),
         error := Some ''Maximum 3 features allowed''\<rparr>)"
  by (simp add: handleFeatureSelect_def handleRemoveFeature_def not_isSelected_after_remove)

lemma length_filter_present:
  assumes "symbol f \<in> symbol ` set fs"
  shows "length (filter (\<lambda>g. symbol g \<noteq> symbol f) fs) < length fs"
proof -
  from assms obtain g where "g \<in> set fs" and "symbol g = symbol f"
    by auto
  then have "g \<in> set fs" and "\<not> symbol g \<noteq> symbol f"
    by simp_all
  then show ?thesis
    by (rule length_filter_less)
qed

lemma remove_then_select_succeeds:
  assumes "length (selectedFeatures s) \<le> 3"
    and "symbol f \<in> symbol ` set (selectedFeatures s)"
  shows "handleFeatureSelect f (handleRemoveFeature (symbol f) s) =
           s\<lparr>selectedFeatures := filter (\<lambda>g. symbol g \<noteq> symbol f) (selectedFeatures s) @ [f],
             error := Some []\<rparr>"
proof -
  have "length (filter (\<lambda>g. symbol g \<noteq> symbol f) (selectedFeatures s)) < 3"
    using length_filter_present [OF assms(2)] assms(1) by linarith
  then show ?thesis
    by (simp add: remove_then_select)
qed

text \<open>
  Claim C8. In every selection (of at most three entries, as all selections the page
  reaches are) and for every symbol selected in it, \<open>remove(symbol)\<close> followed by
  \<open>select\<close> of a feature carrying the symbol succeeds: the feature is appended to what
  the removal left and the message becomes the empty string.
\<close>

theorem C8_remove_then_select_present:
  assumes "length (selectedFeatures s) \<le> 3"
    and "symbol f \<in> symbol ` set (selectedFeatures s)"
  shows "selectedFeatures (handleFeatureSelect f (handleRemoveFeature (symbol f) s))
           = filter (\<lambda>g. symbol g \<noteq> symbol f) (selectedFeatures s) @ [f]
         \<and> error (handleFeatureSelect f (handleRemoveFeature (symbol f) s)) = Some []"
  by (simp add: remove_then_select_succeeds [OF assms])

theorem C8_remove_then_select_present_witness:
  "length [InvoiceGen, TrackPayments, AutoReminders] \<le> 3
   \<and> symbol InvoiceGen \<in> symbol ` set [InvoiceGen, TrackPayments, AutoReminders]
   \<and> selectedFeatures (handleFeatureSelect InvoiceGen (handleRemoveFeature ''InvoiceGen''
        (\<lparr>selectedFeatures = [InvoiceGen, TrackPayments, AutoReminders], error = None,
          isLoading = False, report = JString [], stage = Input\<rparr> :: unit state)))
       = [TrackPayments, AutoReminders, InvoiceGen]
   \<and> error (handleFeatureSelect InvoiceGen (handleRemoveFeature ''InvoiceGen''
        (\<lparr>selectedFeatures = [InvoiceGen, TrackPayments, AutoReminders], error = None,
          isLoading = False, report = JString [], stage = Input\<rparr> :: unit state)))
       = Some []"
  using C8_remove_then_select_present [of
      "\<lparr>selectedFeatures = [InvoiceGen, TrackPayments, AutoReminders], error = None,
        isLoading = False, report = JString [], stage = Input\<rparr> :: unit state"
      InvoiceGen]
  by (simp add: catalogue_defs)

section \<open>Properties of report generation\<close>

lemma issue_nonempty:
  "selectedFeatures s \<noteq> [] \<Longrightarrow>
   handleGenerateReport_issue s
     = (s\<lparr>stage := Loading, isLoading := True\<rparr>, Some (prompt (selectedFeatures s)))"
  by (simp add: handleGenerateReport_issue_def)

text \<open>
  Settling never touches the selection, whatever the component state has become by then.
\<close>

lemma settle_selection:
  "selectedFeatures (handleGenerateReport_settle r s) = selectedFeatures s"
  by (simp add: handleGenerateReport_settle_def Let_def split: fetch_result.split option.split)

text \<open>
  Claim C7. With an empty selection the generate handler only sets the message
  \<open>Please select at least one feature\<close>: the stage is the one before (so it stays
  \<open>input\<close>), and no request is issued.
\<close>

theorem C7_empty_selection_guard:
  assumes "selectedFeatures s = []"
  shows "handleGenerateReport r s =
           (s\<lparr>error := Some ''Please select at least one feature''\<rparr>, [])
         \<and> stage (fst (handleGenerateReport r s)) = stage s"
  using assms by (simp add: handleGenerateReport_def handleGenerateReport_issue_def)

theorem C7_empty_selection_guard_witness:
  "selectedFeatures (initialState :: unit state) = []
   \<and> handleGenerateReport (Resolved \<lparr>status = 200, body = Some (JString ''Report text'')\<rparr>)
       (initialState :: unit state)
     = (\<lparr>selectedFeatures = [], error = Some ''Please select at least one feature'',
          isLoading = False, report = JString [], stage = Input\<rparr>, [])"
  using C7_empty_selection_guard [of "initialState :: unit state"
      "Resolved \<lparr>status = 200, body = Some (JString ''Report text'')\<rparr>"]
  by (simp add: initialState_def)

text \<open>
  Claim C4. With a non-empty selection, when the request fails (the fetch is rejected, the
  status is not a success, or the body is not well-formed JSON), the call ends with the
  message \<open>Failed to generate report. Please try again.\<close>, stage \<open>input\<close> and the
  selection it started with, and it has issued exactly one request.
\<close>

theorem C4_failure_returns_to_input:
  assumes "selectedFeatures s \<noteq> []"
    and "r = Rejected \<or> (\<exists>resp. r = Resolved resp \<and> (\<not> ok resp \<or> body resp = None))"
  shows "handleGenerateReport r s =
           (s\<lparr>error := Some ''Failed to generate report. Please try again.'',
              stage := Input, isLoading := False\<rparr>,
            [prompt (selectedFeatures s)])"
  using assms
  by (auto simp: handleGenerateReport_def issue_nonempty handleGenerateReport_settle_def Let_def)

theorem C4_failure_returns_to_input_witness:
  "[InvoiceGen] \<noteq> []
   \<and> \<not> ok (\<lparr>status = 500, body = None\<rparr> :: unit response)
   \<and> handleGenerateReport (Resolved \<lparr>status = 500, body = None\<rparr>)
       (\<lparr>selectedFeatures = [InvoiceGen], error = Some [],
         isLoading = False, report = JString [], stage = Input\<rparr> :: unit state)
     = (\<lparr>selectedFeatures = [InvoiceGen],
          error = Some ''Failed to generate report. Please try again.'',
          isLoading = False, report = JString [], stage = Input\<rparr>,
        [prompt [InvoiceGen]])"
  using C4_failure_returns_to_input [of
      "\<lparr>selectedFeatures = [InvoiceGen], error = Some [],
        isLoading = False, report = JString [], stage = Input\<rparr> :: unit state"
      "Resolved \<lparr>status = 500, body = None\<rparr>"]
  by (simp add: ok_def)

text \<open>
  Claim C5. With a non-empty selection, when the request succeeds (a success status and a
  body that decodes), the decoded value, whatever it is, becomes the report and the stage
  becomes \<open>report\<close>.
\<close>

theorem C5_success_stores_report:
  assumes "selectedFeatures s \<noteq> []"
    and "ok resp"
    and "body resp = Some v"
  shows "handleGenerateReport (Resolved resp) s =
           (s\<lparr>report := v, stage := Report, isLoading := False\<rparr>,
            [prompt (selectedFeatures s)])"
  using assms
  by (simp add: handleGenerateReport_def issue_nonempty handleGenerateReport_settle_def Let_def)

theorem C5_success_stores_report_witness:
  "[InvoiceGen] \<noteq> []
   \<and> ok (\<lparr>status = 200,
           body = Some (JObject [(''text'', JArray [JNull, JBool True])])\<rparr> :: unit response)
   \<and> handleGenerateReport
       (Resolved \<lparr>status = 200, body = Some (JObject [(''text'', JArray [JNull, JBool True])])\<rparr>)
       (\<lparr>selectedFeatures = [InvoiceGen], error = Some [],
         isLoading = False, report = JString [], stage = Input\<rparr> :: unit state)
     = (\<lparr>selectedFeatures = [InvoiceGen], error = Some [],
          isLoading = False, report = JObject [(''text'', JArray [JNull, JBool True])],
          stage = Report\<rparr>,
        [prompt [InvoiceGen]])"
  using C5_success_stores_report [of
      "\<lparr>selectedFeatures = [InvoiceGen], error = Some [],
        isLoading = False, report = JString [], stage = Input\<rparr> :: unit state"
      "\<lparr>status = 200, body = Some (JObject [(''text'', JArray [JNull, JBool True])])\<rparr>"
      "JObject [(''text'', JArray [JNull, JBool True])]"]
  by (simp add: ok_def)

subsection \<open>The message after a successful mutation\<close>

lemma select_success_clears_error:
  assumes "length (selectedFeatures s) < 3"
    and "symbol f \<notin> symbol ` set (selectedFeatures s)"
  shows "error (handleFeatureSelect f s) = Some []"
  using assms by (simp add: handleFeatureSelect_def isSelected_iff)

lemma remove_clears_error: "error (handleRemoveFeature smb s) = Some []"
  by (simp add: handleRemoveFeature_def)

text \<open>A successful generation leaves the message as it found it.\<close>

lemma success_keeps_error:
  assumes "selectedFeatures s \<noteq> []" and "ok resp" and "body resp = Some v"
  shows "error (fst (handleGenerateReport (Resolved resp) s)) = error s"
  using assms
  by (simp add: handleGenerateReport_def issue_nonempty handleGenerateReport_settle_def Let_def)

text \<open>
  Claim C6 at its failing input. Select \<open>InvoiceGen\<close>, generate with an answer of status
  500, generate again with an answer of status 200 and body \<open>"Report text"\<close>: the second
  generation succeeds (stage \<open>report\<close>, the report stored) and the message is still the one
  of the failed attempt, so the banner is shown beside the report.
\<close>

theorem C6_error_survives_success:
  "fst (handleGenerateReport (Resolved \<lparr>status = 200, body = Some (JString ''Report text'')\<rparr>)
     (fst (handleGenerateReport (Resolved \<lparr>status = 500, body = None\<rparr>)
        (apply_ops [Select InvoiceGen] (initialState :: unit state)))))
   = \<lparr>selectedFeatures = [InvoiceGen],
       error = Some ''Failed to generate report. Please try again.'',
       isLoading = False, report = JString ''Report text'', stage = Report\<rparr>
   \<and> errorShown
     (fst (handleGenerateReport (Resolved \<lparr>status = 200, body = Some (JString ''Report text'')\<rparr>)
       (fst (handleGenerateReport (Resolved \<lparr>status = 500, body = None\<rparr>)
          (apply_ops [Select InvoiceGen] (initialState :: unit state))))))"
  by (simp add: handleGenerateReport_def handleGenerateReport_issue_def
      handleGenerateReport_settle_def Let_def ok_def handleFeatureSelect_def isSelected_def
      initialState_def errorShown_def)

section \<open>Properties of the page\<close>

lemmas page_defs =
  fire_def initialWorld_def initialState_def inflight_def handleFeatureSelect_def
  handleGenerateReport_issue_def isSelected_def renders_def

subsection \<open>The selection on the page\<close>

lemma selection_issue:
  "selectedFeatures (fst (handleGenerateReport_issue s)) = selectedFeatures s"
  by (simp add: handleGenerateReport_issue_def)

lemma selection_ok_cong:
  "selectedFeatures s' = selectedFeatures s \<Longrightarrow> selection_ok s \<Longrightarrow> selection_ok s'"
  by (simp add: selection_ok_def)

lemma selection_ok_handle:
  assumes "selection_ok (component w)"
  shows "selection_ok (component (handle e w))"
proof (cases e)
  case (ClickTile f)
  with assms show ?thesis
    by (simp add: selection_ok_select)
next
  case (ClickRemove smb)
  with assms show ?thesis
    by (simp add: selection_ok_remove)
next
  case ClickGenerate
  have "selectedFeatures (component (handle ClickGenerate w)) = selectedFeatures (component w)"
    using selection_issue [of "component w"]
    by (cases "handleGenerateReport_issue (component w)") (auto split: option.split)
  with assms ClickGenerate show ?thesis
    by (simp only: selection_ok_cong)
next
  case ClickTryAnother
  have "selectedFeatures (tryAnotherSelection (component w)) = selectedFeatures (component w)"
    by (simp add: tryAnotherSelection_def)
  with assms ClickTryAnother show ?thesis
    by (simp add: selection_ok_cong)
next
  case (Settle k r)
  with assms show ?thesis
    by (simp add: selection_ok_cong [OF settle_selection])
qed

lemma selection_ok_run:
  "selection_ok (component w) \<Longrightarrow> run es w = Some w' \<Longrightarrow> selection_ok (component w')"
proof (induction es arbitrary: w)
  case Nil
  then show ?case by simp
next
  case (Cons e es)
  from Cons.prems(2) have "run es (handle e w) = Some w'"
    by (simp add: fire_def split: if_splits)
  with selection_ok_handle [OF Cons.prems(1), of e] show ?case
    by (rule Cons.IH)
qed

text \<open>
  On the page, a remove button exists for selected symbols only and every state reached
  has at most three entries, so a removal the page offers is always followed by a
  successful select of the symbol.
\<close>

lemma remove_then_select_on_page:
  assumes "run es initialWorld = Some w"
    and "enabled (ClickRemove (symbol f)) w"
  shows "handleFeatureSelect f (component (handle (ClickRemove (symbol f)) w)) =
           (component w)\<lparr>selectedFeatures :=
               filter (\<lambda>g. symbol g \<noteq> symbol f) (selectedFeatures (component w)) @ [f],
             error := Some []\<rparr>"
proof -
  have "selection_ok (component (initialWorld :: 'a world))"
    by (simp add: initialWorld_def selection_ok_initialState)
  then have "selection_ok (component w)"
    using assms(1) by (rule selection_ok_run)
  then have "length (selectedFeatures (component w)) \<le> 3"
    by (simp add: selection_ok_def)
  moreover from assms(2) have "symbol f \<in> symbol ` set (selectedFeatures (component w))"
    by simp
  ultimately show ?thesis
    by (simp add: remove_then_select_succeeds)
qed

subsection \<open>The reset button\<close>

text \<open>
  Claim C9. In every state in stage \<open>report\<close> the reset action moves the stage to
  \<open>input\<close> and leaves the selection as it is. On the page the action is the click of
  the reset button, which exists exactly when the report renders.
\<close>

theorem C9_try_another_keeps_selection:
  assumes "stage (component w) = Report"
  shows "stage (tryAnotherSelection (component w)) = Input
         \<and> selectedFeatures (tryAnotherSelection (component w)) = selectedFeatures (component w)
         \<and> fire ClickTryAnother w =
             (if renderable (report (component w))
              then Some (w\<lparr>component := tryAnotherSelection (component w)\<rparr>)
              else None)"
  using assms by (simp add: fire_def tryAnotherSelection_def renders_def)

theorem C9_try_another_keeps_selection_witness:
  "stage (component (\<lparr>component = \<lparr>selectedFeatures = [InvoiceGen], error = Some [],
       isLoading = False, report = JString ''Report text'', stage = Report\<rparr>,
       pending = []\<rparr> :: unit world)) = Report
   \<and> fire ClickTryAnother
       (\<lparr>component = \<lparr>selectedFeatures = [InvoiceGen], error = Some [],
          isLoading = False, report = JString ''Report text'', stage = Report\<rparr>,
         pending = []\<rparr> :: unit world)
     = Some \<lparr>component = \<lparr>selectedFeatures = [InvoiceGen], error = Some [],
          isLoading = False, report = JString ''Report text'', stage = Input\<rparr>,
         pending = []\<rparr>"
  using C9_try_another_keeps_selection [of
      "\<lparr>component = \<lparr>selectedFeatures = [InvoiceGen], error = Some [],
          isLoading = False, report = JString ''Report text'', stage = Report\<rparr>,
        pending = []\<rparr> :: unit world"]
  by (simp add: tryAnotherSelection_def)

text \<open>
  A report that is an object does not render: after it has been stored the page has no
  button at all.
\<close>

lemma no_button_when_render_throws:
  assumes "stage (component w) = Report"
    and "\<not> renderable (report (component w))"
  shows "fire (ClickTile f) w = None \<and> fire (ClickRemove smb) w = None
         \<and> fire ClickGenerate w = None \<and> fire ClickTryAnother w = None"
  using assms by (simp add: fire_def renders_def)

subsection \<open>Requests in flight\<close>

lemma stage_select: "stage (handleFeatureSelect f s) = stage s"
  by (simp add: handleFeatureSelect_def)

lemma stage_remove: "stage (handleRemoveFeature smb s) = stage s"
  by (simp add: handleRemoveFeature_def)

lemma stage_settle: "stage (handleGenerateReport_settle r s) \<noteq> Loading"
  by (simp add: handleGenerateReport_settle_def Let_def split: fetch_result.split option.split)

lemma one_request_handle:
  assumes inv: "one_request w"
    and en: "enabled e w"
    and guard: "isGenerate e \<Longrightarrow> stage (component w) \<noteq> Loading"
  shows "one_request (handle e w)"
proof (cases e)
  case (ClickTile f)
  with inv show ?thesis
    by (simp add: one_request_def inflight_def stage_select)
next
  case (ClickRemove smb)
  with inv show ?thesis
    by (simp add: one_request_def inflight_def stage_remove)
next
  case ClickGenerate
  with guard have "stage (component w) \<noteq> Loading"
    by simp
  with inv have "pending w = []"
    by (simp add: one_request_def inflight_def)
  moreover from en ClickGenerate have "selectedFeatures (component w) \<noteq> []"
    by simp
  ultimately show ?thesis
    using ClickGenerate
    by (simp add: one_request_def inflight_def handleGenerateReport_issue_def)
next
  case ClickTryAnother
  with en have "stage (component w) = Report"
    by simp
  with inv show ?thesis
    using ClickTryAnother
    by (simp add: one_request_def inflight_def tryAnotherSelection_def)
next
  case (Settle k r)
  with en have "k < length (pending w)"
    by simp
  moreover have loading: "stage (component w) = Loading"
  proof (rule ccontr)
    assume "stage (component w) \<noteq> Loading"
    with inv have "length (pending w) = 0"
      by (simp add: one_request_def inflight_def)
    with \<open>k < length (pending w)\<close> show False
      by simp
  qed
  moreover from inv loading have "length (pending w) = 1"
    by (simp add: one_request_def inflight_def)
  ultimately have "k = 0" and "length (pending w) \<le> 1"
    by linarith+
  then have "length (take k (pending w) @ drop (Suc k) (pending w)) = 0"
    by simp
  moreover from loading have "renders (component w)"
    by (simp add: renders_def)
  ultimately show ?thesis
    using Settle by (simp add: one_request_def inflight_def stage_settle del: length_0_conv)
qed

lemma one_request_run:
  assumes "one_request w"
    and "run es w = Some w'"
    and "generateNotWhileLoading es w"
  shows "one_request w'"
  using assms
proof (induction es arbitrary: w)
  case Nil
  then show ?case by simp
next
  case (Cons e es)
  from Cons.prems(2) have en: "enabled e w" and rest: "run es (handle e w) = Some w'"
    by (simp_all add: fire_def split: if_splits)
  from Cons.prems(3) en have guard: "isGenerate e \<Longrightarrow> stage (component w) \<noteq> Loading"
    and later: "generateNotWhileLoading es (handle e w)"
    by (simp_all add: fire_def split: if_splits)
  have "one_request (handle e w)"
    using Cons.prems(1) en guard by (rule one_request_handle)
  then show ?case
    using rest later by (rule Cons.IH)
qed

lemma one_request_initialWorld: "one_request initialWorld"
  by (simp add: one_request_def initialWorld_def initialState_def inflight_def)

text \<open>
  Claim C3, amended. On every run of the page from its initial state in which the generate
  button is never clicked while the stage is \<open>loading\<close> (it may be clicked in stage
  \<open>input\<close> and in stage \<open>report\<close>), at most one request is in flight, and one is in
  flight exactly while the stage is \<open>loading\<close>.
\<close>

theorem C3_single_request_unless_generate_while_loading:
  assumes "run es initialWorld = Some w"
    and "generateNotWhileLoading es initialWorld"
  shows "inflight w \<le> 1 \<and> (inflight w = 1 \<longleftrightarrow> stage (component w) = Loading)"
proof -
  have "one_request w"
    using one_request_initialWorld assms by (rule one_request_run)
  then show ?thesis
    by (cases "stage (component w) = Loading") (simp_all add: one_request_def)
qed

theorem C3_single_request_unless_generate_while_loading_witness:
  "run [ClickTile InvoiceGen, ClickGenerate,
        Settle 0 (Resolved \<lparr>status = 200, body = Some (JString ''Report text'')\<rparr>),
        ClickGenerate] (initialWorld :: unit world)
     = Some \<lparr>component = \<lparr>selectedFeatures = [InvoiceGen], error = Some [],
                isLoading = True, report = JString ''Report text'', stage = Loading\<rparr>,
              pending = [prompt [InvoiceGen]]\<rparr>
   \<and> generateNotWhileLoading [ClickTile InvoiceGen, ClickGenerate,
        Settle 0 (Resolved \<lparr>status = 200, body = Some (JString ''Report text'')\<rparr>),
        ClickGenerate] (initialWorld :: unit world)
   \<and> inflight (\<lparr>component = \<lparr>selectedFeatures = [InvoiceGen], error = Some [],
                isLoading = True, report = JString ''Report text'', stage = Loading\<rparr>,
              pending = [prompt [InvoiceGen]]\<rparr> :: unit world) \<le> 1"
proof -
  have r: "run [ClickTile InvoiceGen, ClickGenerate,
        Settle 0 (Resolved \<lparr>status = 200, body = Some (JString ''Report text'')\<rparr>),
        ClickGenerate] (initialWorld :: unit world)
     = Some \<lparr>component = \<lparr>selectedFeatures = [InvoiceGen], error = Some [],
                isLoading = True, report = JString ''Report text'', stage = Loading\<rparr>,
              pending = [prompt [InvoiceGen]]\<rparr>"
    by (simp add: page_defs catalogue_defs handleGenerateReport_settle_def Let_def ok_def)
  have g: "generateNotWhileLoading [ClickTile InvoiceGen, ClickGenerate,
        Settle 0 (Resolved \<lparr>status = 200, body = Some (JString ''Report text'')\<rparr>),
        ClickGenerate] (initialWorld :: unit world)"
    by (simp add: page_defs catalogue_defs handleGenerateReport_settle_def Let_def ok_def)
  from C3_single_request_unless_generate_while_loading [OF r g] r g show ?thesis
    by simp
qed

text \<open>
  Claim C3 as stated fails: the generate button is not tied to the stage. After a tile and
  the generate button are clicked, one request is in flight, the stage is \<open>loading\<close> and
  the generate button is still enabled; a second click puts a second request in flight.
\<close>

theorem C3_second_request_counterexample:
  "map_option inflight
     (run [ClickTile InvoiceGen, ClickGenerate] (initialWorld :: unit world)) = Some 1
   \<and> map_option (enabled ClickGenerate)
     (run [ClickTile InvoiceGen, ClickGenerate] (initialWorld :: unit world)) = Some True
   \<and> map_option inflight
     (run [ClickTile InvoiceGen, ClickGenerate, ClickGenerate] (initialWorld :: unit world))
       = Some 2"
  by (simp add: page_defs catalogue_defs)

end
